theory Spec2Isabelle
  imports Main
begin

section \<open>JSON values\<close>

text \<open>
  The wire representation: what \<^verbatim>\<open>request.get_json()\<close> hands to a handler and what
  \<^verbatim>\<open>jsonify\<close> receives. A Python dict is an association list (keys in the order the
  code writes them), looked up with \<^const>\<open>map_of\<close>; Python's \<^verbatim>\<open>None\<close> is
  \<open>JNull\<close>. An integer is a \<open>JNumber\<close>; a number written with a fraction
  or an exponent is a \<open>JFloat\<close>, kept as mantissa and decimal exponent, which no
  handler ever reads.
\<close>

datatype json =
    JNull
  | JBool bool
  | JNumber int
  | JFloat int int
  | JString string
  | JArray "json list"
  | JObject "(string \<times> json) list"

section \<open>Calendar dates and their ISO rendering\<close>

text \<open>
  Modelled from the spec: the \<^verbatim>\<open>date_joined\<close> column is a calendar date that is
  "rendered as an ISO date string", \<^verbatim>\<open>"YYYY-MM-DD"\<close>. The model class
  (\<^verbatim>\<open>service/models.py\<close>) is not among the sources; the date is a year, a month and a
  day, well formed when it names a day of the proleptic Gregorian calendar in the
  years 1 to 9999, which is the range of Python's \<^verbatim>\<open>datetime.date\<close>.
\<close>

record date =
  year :: nat
  month :: nat
  day :: nat

text \<open>Modelled from the spec: the Gregorian leap-year rule behind "a day that exists".\<close>

definition is_leap :: "nat \<Rightarrow> bool" where
  "is_leap y = (if y mod 100 = 0 then y mod 400 = 0 else y mod 4 = 0)"

text \<open>Modelled from the spec: the length of a month of a year.\<close>

definition days_in_month :: "nat \<Rightarrow> nat \<Rightarrow> nat" where
  "days_in_month y m =
     (if m = 2 then (if is_leap y then 29 else 28)
      else if m = 4 \<or> m = 6 \<or> m = 9 \<or> m = 11 then 30
      else 31)"

text \<open>Modelled from the spec: the dates a \<^verbatim>\<open>date_joined\<close> column can hold.\<close>

definition valid_date :: "date \<Rightarrow> bool" where
  "valid_date d =
     (1 \<le> year d \<and> year d \<le> 9999 \<and> 1 \<le> month d \<and> month d \<le> 12 \<and>
      1 \<le> day d \<and> day d \<le> days_in_month (year d) (month d))"

text \<open>Modelled from the spec: a decimal digit as its ASCII character, and back.\<close>

definition digit_char :: "nat \<Rightarrow> char" where
  "digit_char n = char_of (48 + n)"

definition digit_val :: "char \<Rightarrow> nat option" where
  "digit_val c =
     (let k = (of_char c :: nat) in if 48 \<le> k \<and> k \<le> 57 then Some (k - 48) else None)"

text \<open>
  Modelled from the spec: the rendering \<^verbatim>\<open>"YYYY-MM-DD"\<close>, that is
  \<^verbatim>\<open>"%04d-%02d-%02d"\<close> on a well-formed date: four, two and two decimal digits.
\<close>

definition isoformat :: "date \<Rightarrow> string" where
  "isoformat d =
     [digit_char (year d div 1000 mod 10), digit_char (year d div 100 mod 10),
      digit_char (year d div 10 mod 10), digit_char (year d mod 10),
      CHR ''-'',
      digit_char (month d div 10 mod 10), digit_char (month d mod 10),
      CHR ''-'',
      digit_char (day d div 10 mod 10), digit_char (day d mod 10)]"

text \<open>
  Modelled from the spec: the inverse reading. Exactly ten characters, digits around two hyphens, and the
  three numbers must name a day that exists. Anything else is no date.
\<close>

fun fromisoformat :: "string \<Rightarrow> date option" where
  "fromisoformat [y1, y2, y3, y4, h1, m1, m2, h2, d1, d2] =
     (if h1 = CHR ''-'' \<and> h2 = CHR ''-'' then
        (case (digit_val y1, digit_val y2, digit_val y3, digit_val y4) of
           (Some a, Some b, Some c, Some e) \<Rightarrow>
             (case (digit_val m1, digit_val m2, digit_val d1, digit_val d2) of
                (Some f, Some g, Some h, Some i) \<Rightarrow>
                  (let d = \<lparr>year = a * 1000 + b * 100 + c * 10 + e,
                            month = f * 10 + g, day = h * 10 + i\<rparr>
                   in if valid_date d then Some d else None)
              | _ \<Rightarrow> None)
         | _ \<Rightarrow> None)
      else None)"
| "fromisoformat _ = None"

section \<open>Failures\<close>

text \<open>
  Every way a handler leaves without a response of its own: \<^verbatim>\<open>abort(code)\<close> and
  \<^verbatim>\<open>abort(code, description)\<close> of the framework, and the validation error of the
  entity.
\<close>

datatype failure =
    Abort nat "string option"
  | DataValidationError string
  | ServerFault string

section \<open>The Account entity\<close>

text \<open>
  Modelled from the spec: the class \<^verbatim>\<open>Account\<close> of \<^verbatim>\<open>service/models.py\<close>, which is
  not among the sources. Its attributes follow section 3 of the specification;
  every attribute of a Python instance can be \<^verbatim>\<open>None\<close>, so every field is an option,
  and \<^verbatim>\<open>Account()\<close> is the instance with nothing set.
\<close>

record account =
  account_id :: "int option"
  name :: "string option"
  email :: "string option"
  address :: "string option"
  phone_number :: "string option"
  date_joined :: "date option"

text \<open>Modelled from the spec: the constructor \<^verbatim>\<open>Account()\<close>.\<close>

definition Account :: account where
  "Account = \<lparr>account_id = None, name = None, email = None, address = None,
              phone_number = None, date_joined = None\<rparr>"

text \<open>Modelled from the spec: a string attribute as JSON, \<^verbatim>\<open>None\<close> as null.\<close>

definition json_of_string_option :: "string option \<Rightarrow> json" where
  "json_of_string_option v = (case v of None \<Rightarrow> JNull | Some s \<Rightarrow> JString s)"

text \<open>
  Modelled from the spec: \<^verbatim>\<open>serialize()\<close> "produces a mapping of all fields to
  JSON-compatible values", one key per field in the order of section 6, with
  \<^verbatim>\<open>date_joined\<close> as its ISO string.
\<close>

definition serialize :: "account \<Rightarrow> json" where
  "serialize a =
     JObject
       [(''id'', (case account_id a of None \<Rightarrow> JNull | Some i \<Rightarrow> JNumber i)),
        (''name'', json_of_string_option (name a)),
        (''email'', json_of_string_option (email a)),
        (''address'', json_of_string_option (address a)),
        (''phone_number'', json_of_string_option (phone_number a)),
        (''date_joined'',
           (case date_joined a of None \<Rightarrow> JNull | Some d \<Rightarrow> JString (isoformat d)))]"

text \<open>
  Modelled from the spec: a required key is present and a string, else the
  validation error.
\<close>

definition required_field :: "(string \<times> json) list \<Rightarrow> string \<Rightarrow> failure + string" where
  "required_field data k =
     (case map_of data k of
        None \<Rightarrow> Inl (DataValidationError (''Invalid Account: missing '' @ k))
      | Some (JString s) \<Rightarrow> Inr s
      | Some _ \<Rightarrow> Inl (DataValidationError (''Invalid Account: bad type for '' @ k)))"

text \<open>Modelled from the spec: an optional string; absent or null is \<^verbatim>\<open>None\<close>.\<close>

definition optional_field :: "(string \<times> json) list \<Rightarrow> string \<Rightarrow> failure + string option" where
  "optional_field data k =
     (case map_of data k of
        None \<Rightarrow> Inr None
      | Some JNull \<Rightarrow> Inr None
      | Some (JString s) \<Rightarrow> Inr (Some s)
      | Some _ \<Rightarrow> Inl (DataValidationError (''Invalid Account: bad type for '' @ k)))"

text \<open>
  Modelled from the spec: \<^verbatim>\<open>date_joined\<close> "defaults to creation date if not
  supplied". The first argument is the date of the request.
\<close>

definition date_field :: "date \<Rightarrow> (string \<times> json) list \<Rightarrow> failure + date" where
  "date_field today data =
     (case map_of data ''date_joined'' of
        None \<Rightarrow> Inr today
      | Some JNull \<Rightarrow> Inr today
      | Some (JString s) \<Rightarrow>
          (case fromisoformat s of
             None \<Rightarrow> Inl (DataValidationError ''Invalid Account: bad date_joined'')
           | Some d \<Rightarrow> Inr d)
      | Some _ \<Rightarrow> Inl (DataValidationError ''Invalid Account: bad type for date_joined''))"

text \<open>
  Modelled from the spec: \<^verbatim>\<open>deserialize(payload)\<close> "populates fields from a mapping of
  string keys to values. Fails with a ValidationError when a required key (name,
  email, address) is absent or of the wrong type. Does not touch id." The required
  keys are read first, in this order. The specification is silent on an optional
  key of the wrong shape; the model rejects it with the same error.
\<close>

fun deserialize :: "date \<Rightarrow> account \<Rightarrow> json \<Rightarrow> failure + account" where
  "deserialize today a (JObject data) =
     (case required_field data ''name'' of Inl e \<Rightarrow> Inl e | Inr n \<Rightarrow>
     (case required_field data ''email'' of Inl e \<Rightarrow> Inl e | Inr em \<Rightarrow>
     (case required_field data ''address'' of Inl e \<Rightarrow> Inl e | Inr ad \<Rightarrow>
     (case optional_field data ''phone_number'' of Inl e \<Rightarrow> Inl e | Inr ph \<Rightarrow>
     (case date_field today data of Inl e \<Rightarrow> Inl e | Inr dj \<Rightarrow>
        Inr (a\<lparr>name := Some n, email := Some em, address := Some ad,
               phone_number := ph, date_joined := Some dj\<rparr>))))))"
| "deserialize today a _ =
     Inl (DataValidationError ''Invalid Account: body of request contained bad or no data'')"

section \<open>The storage layer\<close>

text \<open>
  Modelled from the spec: the relational table behind \<^verbatim>\<open>Account\<close> and the operations
  \<^verbatim>\<open>create\<close>, \<^verbatim>\<open>update\<close>, \<^verbatim>\<open>delete\<close>, \<^verbatim>\<open>find\<close> and \<^verbatim>\<open>all\<close> of section 4.1, which
  live in \<^verbatim>\<open>service/models.py\<close>. The table is the list of its rows in insertion order
  together with the next value of the key's sequence. Faults of the database itself
  (connectivity, rejected inserts) are outside the model: every operation reaches
  the table.
\<close>

record store =
  rows :: "account list"
  next_id :: int

text \<open>Modelled from the spec: the table before any request.\<close>

definition empty_store :: store where
  "empty_store = \<lparr>rows = [], next_id = 1\<rparr>"

text \<open>
  Modelled from the spec: \<^verbatim>\<open>find(id)\<close> is the row with that key, absent (not an
  error) when none matches.
\<close>

definition find_account :: "store \<Rightarrow> int \<Rightarrow> account option" where
  "find_account s i = List.find (\<lambda>r. account_id r = Some i) (rows s)"

text \<open>Modelled from the spec: \<^verbatim>\<open>all()\<close> returns every row.\<close>

definition all_accounts :: "store \<Rightarrow> account list" where
  "all_accounts s = rows s"

text \<open>
  Modelled from the spec: \<^verbatim>\<open>create()\<close> inserts the row and assigns the generated id
  back onto the instance.
\<close>

definition create :: "store \<Rightarrow> account \<Rightarrow> account \<times> store" where
  "create s a =
     (let a' = a\<lparr>account_id := Some (next_id s)\<rparr>
      in (a', s\<lparr>rows := rows s @ [a'], next_id := next_id s + 1\<rparr>))"

text \<open>
  Modelled from the spec: \<^verbatim>\<open>update()\<close> persists the instance's fields to the row
  identified by its id, and is erroneous on an instance with no id.
\<close>

definition update :: "store \<Rightarrow> account \<Rightarrow> failure + store" where
  "update s a =
     (case account_id a of
        None \<Rightarrow> Inl (ServerFault ''update called with empty ID field'')
      | Some i \<Rightarrow>
          Inr (s\<lparr>rows := map (\<lambda>r. if account_id r = Some i then a else r) (rows s)\<rparr>))"

text \<open>
  Modelled from the spec: \<^verbatim>\<open>delete()\<close> removes the row identified by the instance's
  id, a no-op when the row is absent.
\<close>

definition delete :: "store \<Rightarrow> account \<Rightarrow> store" where
  "delete s a = s\<lparr>rows := filter (\<lambda>r. account_id r \<noteq> account_id a) (rows s)\<rparr>"

text \<open>
  The states the service can be in: every row carries a key, keys are unique, and
  the sequence is ahead of all of them.
\<close>

definition id_below :: "int \<Rightarrow> account \<Rightarrow> bool" where
  "id_below n r = (case account_id r of None \<Rightarrow> False | Some i \<Rightarrow> i < n)"

definition store_ok :: "store \<Rightarrow> bool" where
  "store_ok s =
     (distinct (map account_id (rows s)) \<and> list_all (id_below (next_id s)) (rows s))"

section \<open>Requests and responses\<close>

text \<open>
  What a handler reads of a request: the value of the \<^verbatim>\<open>Content-Type\<close> header
  (\<^verbatim>\<open>request.headers.get("Content-Type")\<close>, \<^verbatim>\<open>None\<close> when the header is missing) and
  what \<^verbatim>\<open>request.get_json()\<close> yields for it, which is the framework's business: the
  parsed body, or the framework's own abort when it cannot produce one.
\<close>

record request =
  content_type :: "string option"
  get_json :: "failure + json"

datatype body =
    Json_body json
  | Text_body string
  | Error_message "string option"

record response =
  status :: nat
  body :: body
  headers :: "(string \<times> string) list"

text \<open>
  Modelled from the spec: the status constants of \<^verbatim>\<open>service/common/status.py\<close>, with
  the numbers of the table in section 4.2.
\<close>

abbreviation HTTP_200_OK :: nat where "HTTP_200_OK \<equiv> 200"
abbreviation HTTP_201_CREATED :: nat where "HTTP_201_CREATED \<equiv> 201"
abbreviation HTTP_204_NO_CONTENT :: nat where "HTTP_204_NO_CONTENT \<equiv> 204"
abbreviation HTTP_400_BAD_REQUEST :: nat where "HTTP_400_BAD_REQUEST \<equiv> 400"
abbreviation HTTP_404_NOT_FOUND :: nat where "HTTP_404_NOT_FOUND \<equiv> 404"
abbreviation HTTP_415_UNSUPPORTED_MEDIA_TYPE :: nat where "HTTP_415_UNSUPPORTED_MEDIA_TYPE \<equiv> 415"
abbreviation HTTP_500_INTERNAL_SERVER_ERROR :: nat where "HTTP_500_INTERNAL_SERVER_ERROR \<equiv> 500"

text \<open>\<^verbatim>\<open>make_response(body, status)\<close> and \<^verbatim>\<open>make_response(body, status, headers)\<close>.\<close>

definition make_response :: "body \<Rightarrow> nat \<Rightarrow> (string \<times> string) list \<Rightarrow> response" where
  "make_response b st hs = \<lparr>status = st, body = b, headers = hs\<rparr>"

section \<open>The request handlers of \<^verbatim>\<open>service/routes.py\<close>\<close>

text \<open>
  \<^verbatim>\<open>check_content_type(media_type)\<close>: returns when the header is set (a non-empty
  string, by Python's truth of strings) and equal to the expected media type, and
  aborts with 415 and a message otherwise.
\<close>

definition check_content_type :: "string \<Rightarrow> request \<Rightarrow> failure + unit" where
  "check_content_type media_type req =
     (case content_type req of
        None \<Rightarrow>
          Inl (Abort HTTP_415_UNSUPPORTED_MEDIA_TYPE
                 (Some (''Content-Type must be '' @ media_type)))
      | Some ct \<Rightarrow>
          if ct \<noteq> [] \<and> ct = media_type then Inr ()
          else Inl (Abort HTTP_415_UNSUPPORTED_MEDIA_TYPE
                      (Some (''Content-Type must be '' @ media_type))))"

text \<open>
  \<^verbatim>\<open>create_accounts\<close> (POST /accounts). The first argument is the date of the
  request; the store is returned as the handler leaves it.
\<close>

definition create_accounts :: "date \<Rightarrow> store \<Rightarrow> request \<Rightarrow> (failure + response) \<times> store" where
  "create_accounts today s req =
     (case check_content_type ''application/json'' req of
        Inl e \<Rightarrow> (Inl e, s)
      | Inr _ \<Rightarrow>
     (case get_json req of
        Inl e \<Rightarrow> (Inl e, s)
      | Inr data \<Rightarrow>
     (case deserialize today Account data of
        Inl e \<Rightarrow> (Inl e, s)
      | Inr account \<Rightarrow>
          (let (account', s') = create s account;
               message = serialize account';
               location_url = ''/''
           in (Inr (make_response (Json_body message) HTTP_201_CREATED
                      [(''Location'', location_url)]), s')))))"

text \<open>\<^verbatim>\<open>list_accounts\<close> (GET /accounts): the loop appends one serialization per row.\<close>

definition list_accounts :: "store \<Rightarrow> (failure + response) \<times> store" where
  "list_accounts s =
     (let accs = all_accounts s;
          out = foldl (\<lambda>out acc. out @ [serialize acc]) [] accs
      in (Inr (make_response (Json_body (JArray out)) HTTP_200_OK []), s))"

text \<open>\<^verbatim>\<open>read_account\<close> (GET /accounts/id).\<close>

definition read_account :: "store \<Rightarrow> int \<Rightarrow> (failure + response) \<times> store" where
  "read_account s i =
     (case find_account s i of
        None \<Rightarrow> (Inl (Abort HTTP_404_NOT_FOUND None), s)
      | Some acc \<Rightarrow>
          (let out = serialize acc
           in (Inr (make_response (Json_body out) HTTP_200_OK []), s)))"

text \<open>
  \<^verbatim>\<open>update_account\<close> (PUT /accounts/id). The response is built from a second
  \<^verbatim>\<open>Account.find(id)\<close>; calling \<^verbatim>\<open>serialize\<close> on an absent result would raise.
\<close>

definition update_account :: "date \<Rightarrow> store \<Rightarrow> int \<Rightarrow> request \<Rightarrow> (failure + response) \<times> store" where
  "update_account today s i req =
     (case find_account s i of
        None \<Rightarrow> (Inr (make_response (Text_body []) HTTP_404_NOT_FOUND []), s)
      | Some found \<Rightarrow>
     (case get_json req of
        Inl e \<Rightarrow> (Inl e, s)
      | Inr new_data \<Rightarrow>
     (case deserialize today found new_data of
        Inl e \<Rightarrow> (Inl e, s)
      | Inr found' \<Rightarrow>
     (case update s found' of
        Inl e \<Rightarrow> (Inl e, s)
      | Inr s' \<Rightarrow>
     (case find_account s' i of
        None \<Rightarrow> (Inl (ServerFault ''NoneType has no attribute serialize''), s')
      | Some acc \<Rightarrow>
          (Inr (make_response (Json_body (serialize acc)) HTTP_200_OK []), s'))))))"

text \<open>\<^verbatim>\<open>delete_account\<close> (DELETE /accounts/id).\<close>

definition delete_account :: "store \<Rightarrow> int \<Rightarrow> (failure + response) \<times> store" where
  "delete_account s i =
     (let s' = (case find_account s i of None \<Rightarrow> s | Some acc \<Rightarrow> delete s acc)
      in (Inr (make_response (Text_body []) HTTP_204_NO_CONTENT []), s'))"

section \<open>From a handler's outcome to the HTTP response\<close>

text \<open>
  Modelled from the spec: the error handlers of \<^verbatim>\<open>service/common/error_handlers.py\<close>,
  which are not among the sources. Section 7: a validation failure is a client
  input error (400), an abort carries its own status, anything else is a server
  error; "all error responses are synchronous HTTP status codes plus a
  human-readable message".
\<close>

fun error_response :: "failure \<Rightarrow> response" where
  "error_response (Abort code description) =
     make_response (Error_message description) code []"
| "error_response (DataValidationError msg) =
     make_response (Error_message (Some msg)) HTTP_400_BAD_REQUEST []"
| "error_response (ServerFault msg) =
     make_response (Error_message (Some msg)) HTTP_500_INTERNAL_SERVER_ERROR []"

definition respond :: "(failure + response) \<times> store \<Rightarrow> response \<times> store" where
  "respond out =
     (case fst out of Inl e \<Rightarrow> (error_response e, snd out) | Inr r \<Rightarrow> (r, snd out))"

text \<open>The routes of the service that touch accounts, and the dispatch to their handlers.\<close>

datatype endpoint =
    POST_accounts
  | GET_accounts
  | GET_account int
  | PUT_account int
  | DELETE_account int

fun handle :: "date \<Rightarrow> store \<Rightarrow> endpoint \<Rightarrow> request \<Rightarrow> response \<times> store" where
  "handle today s POST_accounts req = respond (create_accounts today s req)"
| "handle today s GET_accounts req = respond (list_accounts s)"
| "handle today s (GET_account i) req = respond (read_account s i)"
| "handle today s (PUT_account i) req = respond (update_account today s i req)"
| "handle today s (DELETE_account i) req = respond (delete_account s i)"

section \<open>Vocabulary of the properties\<close>

text \<open>
  The shapes a payload's values may have: a required key holds a string; an
  optional string is absent, null or a string; the optional date is absent, null
  or the ISO string of a day that exists.
\<close>

fun is_string :: "json option \<Rightarrow> bool" where
  "is_string (Some (JString s)) = True"
| "is_string _ = False"

fun is_optional_string :: "json option \<Rightarrow> bool" where
  "is_optional_string None = True"
| "is_optional_string (Some JNull) = True"
| "is_optional_string (Some (JString s)) = True"
| "is_optional_string _ = False"

fun is_optional_date :: "json option \<Rightarrow> bool" where
  "is_optional_date None = True"
| "is_optional_date (Some JNull) = True"
| "is_optional_date (Some (JString s)) = (case fromisoformat s of None \<Rightarrow> False | Some d \<Rightarrow> True)"
| "is_optional_date _ = False"

text \<open>A valid payload: name, email and address present, every field of its type.\<close>

definition valid_payload :: "(string \<times> json) list \<Rightarrow> bool" where
  "valid_payload data =
     (is_string (map_of data ''name'') \<and> is_string (map_of data ''email'') \<and>
      is_string (map_of data ''address'') \<and>
      is_optional_string (map_of data ''phone_number'') \<and>
      is_optional_date (map_of data ''date_joined''))"

text \<open>A JSON body has a field when it is an object with that key.\<close>

fun has_field :: "json \<Rightarrow> string \<Rightarrow> bool" where
  "has_field (JObject data) k = (case map_of data k of None \<Rightarrow> False | Some v \<Rightarrow> True)"
| "has_field _ k = False"

text \<open>The payload's value under a key, or a default when the key is absent or null.\<close>

definition field_or :: "json \<Rightarrow> (string \<times> json) list \<Rightarrow> string \<Rightarrow> json" where
  "field_or dflt data k =
     (case map_of data k of None \<Rightarrow> dflt | Some JNull \<Rightarrow> dflt | Some v \<Rightarrow> v)"

text \<open>
  In the words of the specification: "p's fields plus an assigned id and
  date_joined". The record a client expects back for payload \<open>data\<close> stored under
  id \<open>i\<close> on the day \<open>today\<close>: its own values, null for a phone number it did not
  give, and the day of the request for a date it did not give.
\<close>

definition payload_with_id :: "date \<Rightarrow> int \<Rightarrow> (string \<times> json) list \<Rightarrow> json" where
  "payload_with_id today i data =
     JObject
       [(''id'', JNumber i),
        (''name'', field_or JNull data ''name''),
        (''email'', field_or JNull data ''email''),
        (''address'', field_or JNull data ''address''),
        (''phone_number'', field_or JNull data ''phone_number''),
        (''date_joined'', field_or (JString (isoformat today)) data ''date_joined'')]"

text \<open>
  A fully-populated instance: the required attributes are set and the date is a
  day that exists.
\<close>

definition populated :: "account \<Rightarrow> bool" where
  "populated a =
     ((case name a of None \<Rightarrow> False | Some n \<Rightarrow> True) \<and>
      (case email a of None \<Rightarrow> False | Some e \<Rightarrow> True) \<and>
      (case address a of None \<Rightarrow> False | Some ad \<Rightarrow> True) \<and>
      (case date_joined a of None \<Rightarrow> False | Some d \<Rightarrow> valid_date d))"

section \<open>Example data\<close>

text \<open>
  Concrete payloads, requests, rows and stores on which the properties below are
  exercised.
\<close>

definition ada_payload :: "(string \<times> json) list" where
  "ada_payload =
     [(''name'', JString ''Ada''), (''email'', JString ''ada@example.com''),
      (''address'', JString ''12 Mill Lane''), (''phone_number'', JNull),
      (''date_joined'', JString ''2024-02-29'')]"

definition bob_payload :: "(string \<times> json) list" where
  "bob_payload =
     [(''id'', JNull), (''name'', JString ''Bob''), (''email'', JString ''bob@example.com''),
      (''address'', JString ''3 High Street''), (''phone_number'', JString ''555-0101'')]"

definition no_name_payload :: "(string \<times> json) list" where
  "no_name_payload = [(''email'', JString ''eve@example.com''), (''address'', JString ''9 Elm Road'')]"

definition json_request :: "json \<Rightarrow> request" where
  "json_request j = \<lparr>content_type = Some ''application/json'', get_json = Inr j\<rparr>"

definition no_body :: request where
  "no_body = \<lparr>content_type = None, get_json = Inl (Abort HTTP_400_BAD_REQUEST None)\<rparr>"

definition charset_request :: request where
  "charset_request =
     \<lparr>content_type = Some ''application/json; charset=utf-8'', get_json = Inr (JObject ada_payload)\<rparr>"

definition html_request :: request where
  "html_request = \<lparr>content_type = Some ''text/html'', get_json = Inr (JObject ada_payload)\<rparr>"

definition a_day :: date where
  "a_day = \<lparr>year = 2026, month = 11, day = 4\<rparr>"

definition ada_row :: account where
  "ada_row = \<lparr>account_id = Some 1, name = Some ''Ada'', email = Some ''ada@example.com'',
               address = Some ''12 Mill Lane'', phone_number = None,
               date_joined = Some \<lparr>year = 2024, month = 2, day = 29\<rparr>\<rparr>"

definition bob_row :: account where
  "bob_row = \<lparr>account_id = Some 2, name = Some ''Bob'', email = Some ''bob@example.com'',
               address = Some ''3 High Street'', phone_number = Some ''555-0101'',
               date_joined = Some a_day\<rparr>"

definition one_row_store :: store where
  "one_row_store = \<lparr>rows = [ada_row], next_id = 2\<rparr>"

section \<open>Decimal digits and the two directions of the date rendering\<close>

lemma digit_val_digit_char: "n < 10 \<Longrightarrow> digit_val (digit_char n) = Some n"
  by (simp add: digit_val_def digit_char_def)

lemma digit_char_digit_val:
  assumes "digit_val c = Some n"
  shows "digit_char n = c" and "n < 10"
proof -
  let ?k = "of_char c :: nat"
  from assms have k: "48 \<le> ?k" "?k \<le> 57" and n: "n = ?k - 48"
    by (auto simp: digit_val_def Let_def split: if_splits)
  from k n show "n < 10" by simp
  from k n have "48 + n = ?k" by simp
  then show "digit_char n = c" by (simp add: digit_char_def)
qed

lemma split2:
  fixes m :: nat
  assumes "m < 100"
  shows "m div 10 mod 10 * 10 + m mod 10 = m"
proof -
  from assms have "m div 10 < 10" by simp
  then have "m div 10 mod 10 = m div 10" by simp
  then show ?thesis by simp
qed

lemma split4:
  fixes y :: nat
  assumes "y < 10000"
  shows "y div 1000 mod 10 * 1000 + y div 100 mod 10 * 100 + y div 10 mod 10 * 10 + y mod 10 = y"
proof -
  define q1 where "q1 = y div 10"
  define q2 where "q2 = q1 div 10"
  define q3 where "q3 = q2 div 10"
  have e1: "y = q1 * 10 + y mod 10" by (simp add: q1_def)
  have e2: "q1 = q2 * 10 + q1 mod 10" by (simp add: q2_def)
  have e3: "q2 = q3 * 10 + q2 mod 10" by (simp add: q3_def)
  have d2: "y div 100 = q2" by (simp add: q2_def q1_def div_mult2_eq[symmetric])
  have d3: "y div 1000 = q3" by (simp add: q3_def q2_def q1_def div_mult2_eq[symmetric])
  from assms have "q3 < 10" unfolding d3[symmetric] by simp
  then have m3: "q3 mod 10 = q3" by simp
  have "q3 * 1000 + q2 mod 10 * 100 + q1 mod 10 * 10 + y mod 10 = y"
    using e1 e2 e3 by linarith
  then show ?thesis by (simp add: d2 d3 m3 q1_def[symmetric])
qed

lemma join2:
  fixes f g :: nat
  assumes "f < 10" "g < 10"
  shows "(f * 10 + g) div 10 mod 10 = f" "(f * 10 + g) mod 10 = g"
  using assms by simp_all

lemma divmod10:
  fixes f g :: nat
  assumes "g < 10"
  shows "(f * 10 + g) div 10 = f" and "(f * 10 + g) mod 10 = g"
  using assms by simp_all

lemma join4:
  fixes a b c e :: nat
  assumes "a < 10" "b < 10" "c < 10" "e < 10"
  shows "(a * 1000 + b * 100 + c * 10 + e) div 1000 mod 10 = a"
    and "(a * 1000 + b * 100 + c * 10 + e) div 100 mod 10 = b"
    and "(a * 1000 + b * 100 + c * 10 + e) div 10 mod 10 = c"
    and "(a * 1000 + b * 100 + c * 10 + e) mod 10 = e"
proof -
  let ?n = "a * 1000 + b * 100 + c * 10 + e"
  let ?n1 = "(a * 10 + b) * 10 + c"
  let ?n2 = "a * 10 + b"
  have n: "?n = ?n1 * 10 + e" by simp
  have d1: "?n div 10 = ?n1"
    by (simp only: n divmod10(1)[OF assms(4)])
  have d2: "?n div 100 = ?n2"
  proof -
    have "?n div 100 = ?n div 10 div 10" by (simp add: div_mult2_eq[symmetric])
    also have "\<dots> = ?n2" by (simp only: d1 divmod10(1)[OF assms(3)])
    finally show ?thesis .
  qed
  have d3: "?n div 1000 = a"
  proof -
    have "?n div 1000 = ?n div 100 div 10" by (simp add: div_mult2_eq[symmetric])
    also have "\<dots> = a" by (simp only: d2 divmod10(1)[OF assms(2)])
    finally show ?thesis .
  qed
  show "?n div 1000 mod 10 = a" using assms(1) by (simp only: d3 mod_less)
  show "?n div 100 mod 10 = b" by (simp only: d2 divmod10(2)[OF assms(2)])
  show "?n div 10 mod 10 = c" by (simp only: d1 divmod10(2)[OF assms(3)])
  show "?n mod 10 = e" by (simp only: n divmod10(2)[OF assms(4)])
qed

lemma fromisoformat_isoformat:
  assumes "valid_date d"
  shows "fromisoformat (isoformat d) = Some d"
proof -
  from assms have y: "year d < 10000" and m: "month d < 100"
    by (simp_all add: valid_date_def)
  from assms have "day d \<le> days_in_month (year d) (month d)"
    by (simp add: valid_date_def)
  moreover have "days_in_month (year d) (month d) \<le> 31"
    by (simp add: days_in_month_def)
  ultimately have dd: "day d < 100" by simp
  have v: "valid_date \<lparr>year = year d, month = month d, day = day d\<rparr>"
    using assms by (simp add: valid_date_def)
  show ?thesis
    using v by (simp add: isoformat_def digit_val_digit_char split4[OF y] split2[OF m] split2[OF dd])
qed

lemma isoformat_fromisoformat:
  assumes "fromisoformat s = Some d"
  shows "isoformat d = s"
proof (cases s rule: fromisoformat.cases)
  case (1 y1 y2 y3 y4 h1 m1 m2 h2 d1 d2)
  from assms 1 have hy: "h1 = CHR ''-''" "h2 = CHR ''-''"
    by (simp_all split: if_splits)
  from assms 1 hy obtain a b c e where
    dy: "digit_val y1 = Some a" "digit_val y2 = Some b" "digit_val y3 = Some c" "digit_val y4 = Some e"
    by (cases "digit_val y1"; cases "digit_val y2"; cases "digit_val y3"; cases "digit_val y4") simp_all
  from assms 1 hy dy obtain f g h i where
    dm: "digit_val m1 = Some f" "digit_val m2 = Some g" "digit_val d1 = Some h" "digit_val d2 = Some i"
    by (cases "digit_val m1"; cases "digit_val m2"; cases "digit_val d1"; cases "digit_val d2") simp_all
  from assms 1 hy dy dm have d: "d = \<lparr>year = a * 1000 + b * 100 + c * 10 + e, month = f * 10 + g, day = h * 10 + i\<rparr>"
    by (simp add: Let_def split: if_splits)
  note cy = dy[THEN digit_char_digit_val(1)] and ly = dy[THEN digit_char_digit_val(2)]
  note cm = dm[THEN digit_char_digit_val(1)] and lm = dm[THEN digit_char_digit_val(2)]
  show ?thesis
    unfolding 1 d isoformat_def
    using lm by (simp add: join4[OF ly] cy cm hy)
qed (use assms in simp_all)

section \<open>Validation and serialisation of payloads\<close>

lemma required_field_string:
  assumes "is_string (map_of data k)"
  shows "\<exists>s. required_field data k = Inr s \<and> field_or JNull data k = JString s"
  using assms
  by (cases "map_of data k" rule: is_string.cases) (simp_all add: required_field_def field_or_def)

lemma optional_field_string:
  assumes "is_optional_string (map_of data k)"
  shows "\<exists>p. optional_field data k = Inr p \<and> field_or JNull data k = json_of_string_option p"
  using assms
  by (cases "map_of data k" rule: is_optional_string.cases)
     (simp_all add: optional_field_def field_or_def json_of_string_option_def)

lemma date_field_date:
  assumes "is_optional_date (map_of data ''date_joined'')"
  shows "\<exists>d. date_field today data = Inr d \<and>
             field_or (JString (isoformat today)) data ''date_joined'' = JString (isoformat d)"
  using assms
  by (cases "map_of data ''date_joined''" rule: is_optional_date.cases)
     (auto simp: date_field_def field_or_def isoformat_fromisoformat split: option.splits)

lemma deserialize_valid_payload:
  assumes "valid_payload data"
  shows "\<exists>a'. deserialize today a (JObject data) = Inr a' \<and> account_id a' = account_id a \<and>
              (\<forall>i. serialize (a'\<lparr>account_id := Some i\<rparr>) = payload_with_id today i data)"
proof -
  from assms obtain n where n: "required_field data ''name'' = Inr n"
    "field_or JNull data ''name'' = JString n"
    using required_field_string unfolding valid_payload_def by blast
  from assms obtain em where em: "required_field data ''email'' = Inr em"
    "field_or JNull data ''email'' = JString em"
    using required_field_string unfolding valid_payload_def by blast
  from assms obtain ad where ad: "required_field data ''address'' = Inr ad"
    "field_or JNull data ''address'' = JString ad"
    using required_field_string unfolding valid_payload_def by blast
  from assms obtain ph where ph: "optional_field data ''phone_number'' = Inr ph"
    "field_or JNull data ''phone_number'' = json_of_string_option ph"
    using optional_field_string unfolding valid_payload_def by blast
  from assms obtain dj where dj: "date_field today data = Inr dj"
    "field_or (JString (isoformat today)) data ''date_joined'' = JString (isoformat dj)"
    using date_field_date unfolding valid_payload_def by blast
  show ?thesis
    by (simp add: n em ad ph dj serialize_def payload_with_id_def json_of_string_option_def)
qed

lemma deserialize_missing_field:
  assumes "\<not> (has_field j ''name'' \<and> has_field j ''email'' \<and> has_field j ''address'')"
  shows "\<exists>msg. deserialize today a j = Inl (DataValidationError msg)"
proof (cases j)
  case (JObject data)
  show ?thesis
  proof (cases "map_of data ''name''")
    case None
    then show ?thesis by (simp add: JObject required_field_def)
  next
    case (Some v)
    note nm = this
    have rn: "(\<exists>msg. required_field data ''name'' = Inl (DataValidationError msg)) \<or> (\<exists>s. required_field data ''name'' = Inr s)"
      by (simp add: required_field_def split: option.splits json.splits)
    have re: "(\<exists>msg. required_field data ''email'' = Inl (DataValidationError msg)) \<or> (\<exists>s. required_field data ''email'' = Inr s)"
      by (simp add: required_field_def split: option.splits json.splits)
    show ?thesis
    proof (cases "map_of data ''email''")
      case None
      then have "\<exists>msg. required_field data ''email'' = Inl (DataValidationError msg)"
        by (simp add: required_field_def)
      with rn show ?thesis by (auto simp: JObject)
    next
      case (Some w)
      with nm assms JObject have "map_of data ''address'' = None"
        by (simp split: option.splits)
      then have "\<exists>msg. required_field data ''address'' = Inl (DataValidationError msg)"
        by (simp add: required_field_def)
      with rn re show ?thesis by (auto simp: JObject)
    qed
  qed
qed simp_all

section \<open>The storage layer: lookups and the invariant\<close>

lemma find_account_id:
  "find_account s i = Some acc \<Longrightarrow> account_id acc = Some i"
  by (auto simp: find_account_def find_Some_iff)

lemma find_snoc_fresh:
  assumes "list_all (\<lambda>r. \<not> P r) xs" and "P y"
  shows "List.find P (xs @ [y]) = Some y"
  using assms by (induction xs) simp_all

lemma find_filter_out: "List.find P (filter (\<lambda>r. \<not> P r) xs) = None"
  by (induction xs) simp_all

lemma find_map_replace:
  assumes "List.find P xs = Some x" and "P a"
  shows "List.find P (map (\<lambda>r. if P r then a else r) xs) = Some a"
  using assms by (induction xs) (auto split: if_splits)

lemma find_map_other:
  assumes "\<And>r. P r \<Longrightarrow> \<not> Q r" and "\<not> Q a"
  shows "List.find Q (map (\<lambda>r. if P r then a else r) xs) = List.find Q xs"
  using assms by (induction xs) auto

lemma find_create:
  assumes "store_ok s"
  shows "find_account (snd (create s a)) (next_id s) = Some (a\<lparr>account_id := Some (next_id s)\<rparr>)"
proof -
  from assms have "list_all (\<lambda>r. \<not> account_id r = Some (next_id s)) (rows s)"
    by (auto simp: store_ok_def id_below_def list_all_iff split: option.splits)
  then show ?thesis
    by (simp add: create_def find_account_def Let_def find_snoc_fresh)
qed

lemma find_delete:
  assumes "account_id acc = Some i"
  shows "find_account (delete s acc) i = None"
proof -
  have "List.find (\<lambda>r. account_id r = Some i)
          (filter (\<lambda>r. \<not> account_id r = Some i) (rows s)) = None"
    by (rule find_filter_out)
  then show ?thesis
    by (simp add: delete_def find_account_def assms)
qed

lemma foldl_append_map: "foldl (\<lambda>out acc. out @ [f acc]) init xs = init @ map f xs"
  by (induction xs arbitrary: init) simp_all

lemma store_ok_empty: "store_ok empty_store"
  by (simp add: store_ok_def empty_store_def)

lemma store_ok_create: "store_ok s \<Longrightarrow> store_ok (snd (create s a))"
  by (auto simp: store_ok_def id_below_def create_def Let_def list_all_iff split: option.splits)

lemma store_ok_delete: "store_ok s \<Longrightarrow> store_ok (delete s a)"
  by (auto simp: store_ok_def delete_def list_all_iff distinct_map_filter)

lemma store_ok_update:
  assumes "store_ok s" and "update s a = Inr s'"
  shows "store_ok s'"
proof -
  from assms(2) obtain i where i: "account_id a = Some i"
    and s': "s' = s\<lparr>rows := map (\<lambda>r. if account_id r = Some i then a else r) (rows s)\<rparr>"
    by (auto simp: update_def split: option.splits)
  have ids: "map account_id (rows s') = map account_id (rows s)"
    using i by (simp add: s' comp_def cong: map_cong)
  have "list_all (id_below (next_id s)) (rows s')"
    using assms(1) i by (auto simp: s' store_ok_def id_below_def list_all_iff)
  with assms(1) ids show ?thesis by (simp add: store_ok_def s' del: map_map)
qed

text \<open>
  Every request leaves the store in a state the service can be in.
\<close>

lemma store_ok_handle:
  assumes "store_ok s"
  shows "store_ok (snd (handle today s ep req))"
proof (cases ep)
  case POST_accounts
  then show ?thesis
    using store_ok_create[OF assms]
    by (auto simp: respond_def create_accounts_def Let_def case_prod_beta assms
             split: sum.splits simp del: deserialize.simps)
next
  case GET_accounts
  then show ?thesis using assms by (simp add: respond_def list_accounts_def)
next
  case (GET_account i)
  then show ?thesis using assms by (simp add: respond_def read_account_def split: option.splits)
next
  case (PUT_account i)
  then show ?thesis
    using assms store_ok_update[OF assms]
    by (auto simp: respond_def update_account_def split: option.splits sum.splits simp del: deserialize.simps)
next
  case (DELETE_account i)
  then show ?thesis
    using assms store_ok_delete[OF assms]
    by (simp add: respond_def delete_account_def split: option.splits)
qed

section \<open>The example data, evaluated\<close>

lemma valid_ada: "valid_payload ada_payload"
  by (simp add: valid_payload_def ada_payload_def digit_val_def valid_date_def days_in_month_def is_leap_def)

lemma valid_bob: "valid_payload bob_payload"
  by (simp add: valid_payload_def bob_payload_def)

lemma store_ok_one: "store_ok one_row_store"
  by (simp add: store_ok_def id_below_def one_row_store_def ada_row_def)

lemma isoformat_a_day: "isoformat a_day = ''2026-11-04''"
  by code_simp

lemma fromisoformat_leap_day: "fromisoformat ''2024-02-29'' = Some \<lparr>year = 2024, month = 2, day = 29\<rparr>"
  by (simp add: digit_val_def valid_date_def days_in_month_def is_leap_def)

lemma deserialize_ada:
  "deserialize t a (JObject ada_payload) =
     Inr (a\<lparr>name := Some ''Ada'', email := Some ''ada@example.com'',
            address := Some ''12 Mill Lane'', phone_number := None,
            date_joined := Some \<lparr>year = 2024, month = 2, day = 29\<rparr>\<rparr>)"
  by (simp add: ada_payload_def required_field_def optional_field_def date_field_def
        fromisoformat_leap_day del: fromisoformat.simps)

lemma deserialize_bob:
  "deserialize t a (JObject bob_payload) =
     Inr (a\<lparr>name := Some ''Bob'', email := Some ''bob@example.com'',
            address := Some ''3 High Street'', phone_number := Some ''555-0101'',
            date_joined := Some t\<rparr>)"
  by (simp add: bob_payload_def required_field_def optional_field_def date_field_def)

lemma post_ada:
  "create_accounts t empty_store (json_request (JObject ada_payload)) =
     (Inr (make_response (Json_body (serialize ada_row)) HTTP_201_CREATED [(''Location'', ''/'')]),
      one_row_store)"
  by (simp add: create_accounts_def check_content_type_def json_request_def deserialize_ada
        create_def Let_def Account_def empty_store_def one_row_store_def ada_row_def
        del: deserialize.simps)

lemma post_bob:
  "create_accounts a_day one_row_store (json_request (JObject bob_payload)) =
     (Inr (make_response (Json_body (serialize bob_row)) HTTP_201_CREATED [(''Location'', ''/'')]),
      \<lparr>rows = [ada_row, bob_row], next_id = 3\<rparr>)"
  by (simp add: create_accounts_def check_content_type_def json_request_def deserialize_bob
        create_def Let_def Account_def one_row_store_def bob_row_def
        del: deserialize.simps)

section \<open>Properties of the service\<close>

subsection \<open>C1\<close>

text \<open>
  Claim C1. A request that passes the media-type gate of POST /accounts (section
  4.2: the Content-Type must be application/json) and carries a valid payload with
  name, email and address is answered 201 with the serialized created account and
  a Location header; the account's id is the next value of the key sequence. A
  later GET on that id is answered 200 with the same record: the payload's fields
  plus the assigned id, and the day of the request as date_joined when the payload
  gave none. The store is in a state the service can reach (\<open>store_ok\<close>).
\<close>

theorem post_then_get:
  assumes "store_ok s"
    and "content_type req = Some ''application/json''"
    and "get_json req = Inr (JObject data)"
    and "valid_payload data"
  shows "fst (handle today s POST_accounts req) =
           make_response (Json_body (payload_with_id today (next_id s) data)) HTTP_201_CREATED
             [(''Location'', ''/'')]
         \<and> handle later (snd (handle today s POST_accounts req)) (GET_account (next_id s)) req' =
             (make_response (Json_body (payload_with_id today (next_id s) data)) HTTP_200_OK [],
              snd (handle today s POST_accounts req))"
proof -
  from deserialize_valid_payload[OF assms(4), of today Account] obtain a' where
    d: "deserialize today Account (JObject data) = Inr a'" and
    ser: "\<And>i. serialize (a'\<lparr>account_id := Some i\<rparr>) = payload_with_id today i data"
    by blast
  have post: "create_accounts today s req =
      (Inr (make_response (Json_body (payload_with_id today (next_id s) data)) HTTP_201_CREATED
         [(''Location'', ''/'')]), snd (create s a'))"
    using assms(2,3) d ser[of "next_id s"]
    by (simp add: create_accounts_def check_content_type_def create_def Let_def del: deserialize.simps)
  show ?thesis
    by (simp add: post respond_def read_account_def find_create[OF assms(1)] ser)
qed

theorem post_then_get_witness:
  "store_ok one_row_store
   \<and> valid_payload bob_payload
   \<and> handle a_day one_row_store POST_accounts (json_request (JObject bob_payload)) =
       (make_response
          (Json_body (JObject
             [(''id'', JNumber 2), (''name'', JString ''Bob''),
              (''email'', JString ''bob@example.com''), (''address'', JString ''3 High Street''),
              (''phone_number'', JString ''555-0101''), (''date_joined'', JString ''2026-11-04'')]))
          HTTP_201_CREATED [(''Location'', ''/'')],
        \<lparr>rows = [ada_row, bob_row], next_id = 3\<rparr>)
   \<and> handle a_day \<lparr>rows = [ada_row, bob_row], next_id = 3\<rparr> (GET_account 2) no_body =
       (make_response
          (Json_body (JObject
             [(''id'', JNumber 2), (''name'', JString ''Bob''),
              (''email'', JString ''bob@example.com''), (''address'', JString ''3 High Street''),
              (''phone_number'', JString ''555-0101''), (''date_joined'', JString ''2026-11-04'')]))
          HTTP_200_OK [],
        \<lparr>rows = [ada_row, bob_row], next_id = 3\<rparr>)"
proof -
  have ct: "content_type (json_request j) = Some ''application/json''"
    and gj: "get_json (json_request j) = Inr j" for j
    by (simp_all add: json_request_def)
  have n: "next_id one_row_store = 2" by (simp add: one_row_store_def)
  have s': "snd (handle a_day one_row_store POST_accounts (json_request (JObject bob_payload))) =
      \<lparr>rows = [ada_row, bob_row], next_id = 3\<rparr>"
    by (simp add: post_bob respond_def)
  have b: "payload_with_id a_day 2 bob_payload =
      JObject [(''id'', JNumber 2), (''name'', JString ''Bob''),
              (''email'', JString ''bob@example.com''), (''address'', JString ''3 High Street''),
              (''phone_number'', JString ''555-0101''), (''date_joined'', JString ''2026-11-04'')]"
    by (simp add: payload_with_id_def field_or_def bob_payload_def isoformat_a_day)
  show ?thesis
    using store_ok_one valid_bob
      post_then_get [OF store_ok_one ct gj valid_bob, of a_day a_day no_body]
    unfolding n s' b
    by (simp add: prod_eq_iff s' del: handle.simps)
qed

subsection \<open>C2\<close>

text \<open>
  Claim C2. DELETE /accounts/id is answered 204 with an empty body for every id and
  every store, whether or not a row has that id; deleting the same id again is
  answered 204 again and changes nothing; a GET on that id after the delete is
  answered 404; and when no row had the id the store is left as it was.
\<close>

theorem delete_idempotent:
  "fst (handle t1 s (DELETE_account i) r1) = make_response (Text_body []) HTTP_204_NO_CONTENT []
   \<and> handle t2 (snd (handle t1 s (DELETE_account i) r1)) (DELETE_account i) r2 =
       (make_response (Text_body []) HTTP_204_NO_CONTENT [], snd (handle t1 s (DELETE_account i) r1))
   \<and> status (fst (handle t3 (snd (handle t1 s (DELETE_account i) r1)) (GET_account i) r3)) =
       HTTP_404_NOT_FOUND
   \<and> (find_account s i = None \<longrightarrow> snd (handle t1 s (DELETE_account i) r1) = s)"
proof -
  let ?s1 = "snd (handle t1 s (DELETE_account i) r1)"
  have gone: "find_account ?s1 i = None"
    by (cases "find_account s i")
       (simp_all add: delete_account_def respond_def find_delete find_account_id)
  show ?thesis
    using gone
    by (simp add: delete_account_def read_account_def respond_def make_response_def)
qed

theorem delete_idempotent_witness:
  "find_account one_row_store 1 = Some ada_row
   \<and> find_account one_row_store 7 = None
   \<and> snd (handle a_day one_row_store (DELETE_account 1) no_body) = \<lparr>rows = [], next_id = 2\<rparr>
   \<and> snd (handle a_day one_row_store (DELETE_account 7) no_body) = one_row_store
   \<and> status (fst (handle a_day one_row_store (DELETE_account 7) no_body)) = HTTP_204_NO_CONTENT
   \<and> status (fst (handle a_day (snd (handle a_day one_row_store (DELETE_account 1) no_body))
                (DELETE_account 1) no_body)) = HTTP_204_NO_CONTENT
   \<and> status (fst (handle a_day (snd (handle a_day one_row_store (DELETE_account 1) no_body))
                (GET_account 1) no_body)) = HTTP_404_NOT_FOUND"
proof -
  have f1: "find_account one_row_store 1 = Some ada_row"
    and f7: "find_account one_row_store 7 = None"
    by (simp_all add: find_account_def one_row_store_def ada_row_def)
  have d1: "snd (handle a_day one_row_store (DELETE_account 1) no_body) = \<lparr>rows = [], next_id = 2\<rparr>"
    by (simp add: respond_def delete_account_def f1 delete_def)
       (simp add: one_row_store_def ada_row_def)
  show ?thesis
    using f1 f7 d1
      delete_idempotent [of a_day one_row_store 1 no_body a_day no_body a_day no_body]
      delete_idempotent [of a_day one_row_store 7 no_body a_day no_body a_day no_body]
    by (simp add: make_response_def)
qed

subsection \<open>C3\<close>

text \<open>
  Claim C3. PUT /accounts/id on an id with no matching row is answered 404 and the
  store is returned unchanged: no row is created and none is modified.
\<close>

theorem put_unknown_id:
  assumes "find_account s i = None"
  shows "handle today s (PUT_account i) req =
           (make_response (Text_body []) HTTP_404_NOT_FOUND [], s)"
  using assms by (simp add: update_account_def respond_def)

theorem put_unknown_id_witness:
  "find_account one_row_store 7 = None
   \<and> handle a_day one_row_store (PUT_account 7) (json_request (JObject bob_payload)) =
       (make_response (Text_body []) HTTP_404_NOT_FOUND [], one_row_store)"
proof -
  have h: "find_account one_row_store 7 = None"
    by (simp add: find_account_def one_row_store_def ada_row_def)
  show ?thesis
    using h put_unknown_id [OF h, of a_day "json_request (JObject bob_payload)"] by simp
qed

subsection \<open>C4\<close>

text \<open>
  Claim C4. PUT /accounts/id on an existing id with a valid payload is answered 200
  with the serialized updated account. The row found under that id afterwards
  keeps the id and serializes to the payload's name, email, address, phone_number
  (null when not given) and date_joined (the day of the request when not given);
  every other id finds the row it found before, and the keys of the table are the
  same, in the same order.
\<close>

theorem put_overwrites:
  assumes "find_account s i = Some old"
    and "get_json req = Inr (JObject data)"
    and "valid_payload data"
  shows "fst (handle today s (PUT_account i) req) =
           make_response (Json_body (payload_with_id today i data)) HTTP_200_OK []
         \<and> (\<exists>new. find_account (snd (handle today s (PUT_account i) req)) i = Some new
                \<and> account_id new = Some i \<and> serialize new = payload_with_id today i data)
         \<and> (\<forall>j. j \<noteq> i \<longrightarrow>
               find_account (snd (handle today s (PUT_account i) req)) j = find_account s j)
         \<and> map account_id (rows (snd (handle today s (PUT_account i) req))) =
             map account_id (rows s)"
proof -
  have oid: "account_id old = Some i" using assms(1) by (rule find_account_id)
  from deserialize_valid_payload[OF assms(3), of today old] obtain a' where
    d: "deserialize today old (JObject data) = Inr a'" and
    aid: "account_id a' = Some i" and
    ser: "\<And>k. serialize (a'\<lparr>account_id := Some k\<rparr>) = payload_with_id today k data"
    using oid by auto
  have a'_eq: "a'\<lparr>account_id := Some i\<rparr> = a'" using aid by simp
  have ser': "serialize a' = payload_with_id today i data"
    using ser[of i] by (simp only: a'_eq)
  let ?s' = "s\<lparr>rows := map (\<lambda>r. if account_id r = Some i then a' else r) (rows s)\<rparr>"
  have u: "update s a' = Inr ?s'" by (simp add: update_def aid)
  have f': "find_account ?s' i = Some a'"
    using assms(1) aid by (simp add: find_account_def find_map_replace)
  have other: "find_account ?s' j = find_account s j" if "j \<noteq> i" for j
  proof -
    have "List.find (\<lambda>r. account_id r = Some j)
            (map (\<lambda>r. if account_id r = Some i then a' else r) (rows s)) =
          List.find (\<lambda>r. account_id r = Some j) (rows s)"
      by (rule find_map_other) (use that aid in auto)
    then show ?thesis by (simp add: find_account_def)
  qed
  have ids: "map account_id (rows ?s') = map account_id (rows s)"
    using aid by (simp add: comp_def cong: map_cong)
  have put: "update_account today s i req =
      (Inr (make_response (Json_body (payload_with_id today i data)) HTTP_200_OK []), ?s')"
    by (simp add: update_account_def assms(1,2) d u f' ser' del: deserialize.simps)
  show ?thesis
    unfolding handle.simps put respond_def
    using f' aid ser' other ids by simp
qed

theorem put_overwrites_witness:
  "find_account one_row_store 1 = Some ada_row
   \<and> valid_payload bob_payload
   \<and> handle a_day one_row_store (PUT_account 1) (json_request (JObject bob_payload)) =
       (make_response
          (Json_body (JObject
             [(''id'', JNumber 1), (''name'', JString ''Bob''),
              (''email'', JString ''bob@example.com''), (''address'', JString ''3 High Street''),
              (''phone_number'', JString ''555-0101''), (''date_joined'', JString ''2026-11-04'')]))
          HTTP_200_OK [],
        \<lparr>rows = [bob_row\<lparr>account_id := Some 1\<rparr>], next_id = 2\<rparr>)"
proof -
  have gj: "get_json (json_request j) = Inr j" for j
    by (simp add: json_request_def)
  have f1: "find_account one_row_store 1 = Some ada_row"
    by (simp add: find_account_def one_row_store_def ada_row_def)
  have b: "payload_with_id a_day 1 bob_payload =
      JObject [(''id'', JNumber 1), (''name'', JString ''Bob''),
              (''email'', JString ''bob@example.com''), (''address'', JString ''3 High Street''),
              (''phone_number'', JString ''555-0101''), (''date_joined'', JString ''2026-11-04'')]"
    by (simp add: payload_with_id_def field_or_def bob_payload_def isoformat_a_day)
  have s': "snd (handle a_day one_row_store (PUT_account 1) (json_request (JObject bob_payload))) =
      \<lparr>rows = [bob_row\<lparr>account_id := Some 1\<rparr>], next_id = 2\<rparr>"
    by (simp add: respond_def update_account_def f1 gj deserialize_bob update_def
          del: deserialize.simps)
       (simp add: one_row_store_def ada_row_def bob_row_def find_account_def)
  show ?thesis
    using f1 valid_bob put_overwrites [OF f1 gj valid_bob, of a_day]
    unfolding b
    by (simp add: prod_eq_iff s' del: handle.simps)
qed

subsection \<open>C5\<close>

text \<open>
  Claim C5. GET /accounts is always answered 200 with the JSON array of the
  serializations of all rows, one element per row in the order of the table, and
  leaves the store alone; with no rows the body is the empty array.
\<close>

theorem list_accounts_all:
  "handle today s GET_accounts req =
     (make_response (Json_body (JArray (map serialize (rows s)))) HTTP_200_OK [], s)
   \<and> (rows s = [] \<longrightarrow>
        fst (handle today s GET_accounts req) = make_response (Json_body (JArray [])) HTTP_200_OK [])"
  by (simp add: list_accounts_def all_accounts_def respond_def foldl_append_map)

theorem list_accounts_all_witness:
  "rows empty_store = []
   \<and> handle a_day empty_store GET_accounts no_body =
       (make_response (Json_body (JArray [])) HTTP_200_OK [], empty_store)
   \<and> handle a_day one_row_store GET_accounts no_body =
       (make_response (Json_body (JArray [serialize ada_row])) HTTP_200_OK [], one_row_store)"
  using list_accounts_all [of a_day empty_store no_body]
    list_accounts_all [of a_day one_row_store no_body]
  by (simp add: empty_store_def one_row_store_def)

subsection \<open>C6\<close>

text \<open>
  Claim C6. POST /accounts whose Content-Type header is anything but
  application/json (or is missing) is answered 415 with the message
  "Content-Type must be application/json", whatever the body is, and the store is
  returned unchanged.
\<close>

theorem wrong_media_type_rejected:
  assumes "content_type req \<noteq> Some ''application/json''"
  shows "handle today s POST_accounts req =
           (make_response (Error_message (Some ''Content-Type must be application/json''))
              HTTP_415_UNSUPPORTED_MEDIA_TYPE [], s)"
  using assms
  by (cases "content_type req") (auto simp: check_content_type_def create_accounts_def respond_def)

theorem wrong_media_type_rejected_witness:
  "content_type html_request \<noteq> Some ''application/json''
   \<and> valid_payload ada_payload
   \<and> handle a_day one_row_store POST_accounts html_request =
       (make_response (Error_message (Some ''Content-Type must be application/json''))
          HTTP_415_UNSUPPORTED_MEDIA_TYPE [], one_row_store)"
proof -
  have h: "content_type html_request \<noteq> Some ''application/json''"
    by (simp add: html_request_def)
  show ?thesis
    using h valid_ada wrong_media_type_rejected [OF h, of a_day one_row_store] by simp
qed

subsection \<open>C7\<close>

text \<open>
  Claim C7. A request that passes the media-type gate of POST /accounts and whose
  JSON body lacks name, email or address (a body that is no JSON object lacks all
  three) is answered 400 and the store is returned unchanged: the validation
  failure comes before the create operation.
\<close>

theorem missing_field_rejected:
  assumes "content_type req = Some ''application/json''"
    and "get_json req = Inr j"
    and "\<not> (has_field j ''name'' \<and> has_field j ''email'' \<and> has_field j ''address'')"
  shows "status (fst (handle today s POST_accounts req)) = HTTP_400_BAD_REQUEST
         \<and> snd (handle today s POST_accounts req) = s"
proof -
  from deserialize_missing_field[OF assms(3)] obtain msg where
    "deserialize today Account j = Inl (DataValidationError msg)" by blast
  then show ?thesis
    using assms(1,2)
    by (simp add: create_accounts_def check_content_type_def respond_def make_response_def)
qed

theorem missing_field_rejected_witness:
  "content_type (json_request (JObject no_name_payload)) = Some ''application/json''
   \<and> get_json (json_request (JObject no_name_payload)) = Inr (JObject no_name_payload)
   \<and> \<not> has_field (JObject no_name_payload) ''name''
   \<and> status (fst (handle a_day one_row_store POST_accounts (json_request (JObject no_name_payload)))) =
       HTTP_400_BAD_REQUEST
   \<and> snd (handle a_day one_row_store POST_accounts (json_request (JObject no_name_payload))) =
       one_row_store
   \<and> status (fst (handle a_day one_row_store POST_accounts (json_request (JArray [])))) =
       HTTP_400_BAD_REQUEST"
proof -
  have ct: "content_type (json_request j) = Some ''application/json''"
    and gj: "get_json (json_request j) = Inr j" for j
    by (simp_all add: json_request_def)
  have m1: "\<not> (has_field (JObject no_name_payload) ''name''
              \<and> has_field (JObject no_name_payload) ''email''
              \<and> has_field (JObject no_name_payload) ''address'')"
    by (simp add: no_name_payload_def)
  have m2: "\<not> (has_field (JArray []) ''name'' \<and> has_field (JArray []) ''email''
              \<and> has_field (JArray []) ''address'')"
    by simp
  show ?thesis
    using ct gj m1
      missing_field_rejected [OF ct gj m1, of a_day one_row_store]
      missing_field_rejected [OF ct gj m2, of a_day one_row_store]
    by (simp add: no_name_payload_def)
qed

subsection \<open>C8\<close>

text \<open>
  Claim C8, the round-trip law. For a fully-populated account \<open>a\<close>, deserializing
  the serialization of \<open>a\<close> into any instance \<open>b\<close> succeeds and yields \<open>b\<close> with
  every field of \<open>a\<close> except the id, which stays that of \<open>b\<close>.
\<close>

theorem serialize_deserialize:
  assumes "populated a"
  shows "deserialize today b (serialize a) = Inr (b\<lparr>name := name a, email := email a,
           address := address a, phone_number := phone_number a, date_joined := date_joined a\<rparr>)"
proof -
  from assms obtain n em ad d where f: "name a = Some n" "email a = Some em"
    "address a = Some ad" "date_joined a = Some d" "valid_date d"
    by (auto simp: populated_def split: option.splits)
  show ?thesis
    by (cases "phone_number a")
       (simp_all add: f serialize_def json_of_string_option_def required_field_def
          optional_field_def date_field_def fromisoformat_isoformat)
qed

theorem serialize_deserialize_witness:
  "populated ada_row \<and> populated bob_row
   \<and> deserialize a_day Account (serialize ada_row) = Inr (ada_row\<lparr>account_id := None\<rparr>)
   \<and> deserialize a_day ada_row (serialize bob_row) = Inr (bob_row\<lparr>account_id := Some 1\<rparr>)"
proof -
  have p1: "populated ada_row"
    by (simp add: populated_def ada_row_def valid_date_def days_in_month_def is_leap_def)
  have p2: "populated bob_row"
    by (simp add: populated_def bob_row_def a_day_def valid_date_def days_in_month_def)
  show ?thesis
    using p1 p2 serialize_deserialize [OF p1, of a_day Account]
      serialize_deserialize [OF p2, of a_day ada_row]
    by (simp add: ada_row_def bob_row_def Account_def)
qed

subsection \<open>C9\<close>

text \<open>
  Claim C9. Whenever \<^verbatim>\<open>create_accounts\<close> returns a response, its only header is
  Location with the constant value "/", and that response is what POST /accounts
  answers: the header does not depend on the created account.
\<close>

theorem location_is_root:
  assumes "fst (create_accounts today s req) = Inr r"
  shows "headers r = [(''Location'', ''/'')] \<and> fst (handle today s POST_accounts req) = r"
  using assms
  by (auto simp: create_accounts_def respond_def create_def Let_def make_response_def
           split: sum.splits)

theorem location_is_root_witness:
  "fst (create_accounts a_day empty_store (json_request (JObject ada_payload))) =
     Inr (make_response (Json_body (serialize ada_row)) HTTP_201_CREATED [(''Location'', ''/'')])
   \<and> fst (create_accounts a_day one_row_store (json_request (JObject bob_payload))) =
     Inr (make_response (Json_body (serialize bob_row)) HTTP_201_CREATED [(''Location'', ''/'')])
   \<and> headers (fst (handle a_day empty_store POST_accounts (json_request (JObject ada_payload)))) =
       [(''Location'', ''/'')]
   \<and> headers (fst (handle a_day one_row_store POST_accounts (json_request (JObject bob_payload)))) =
       [(''Location'', ''/'')]"
proof -
  have c1: "fst (create_accounts a_day empty_store (json_request (JObject ada_payload))) =
     Inr (make_response (Json_body (serialize ada_row)) HTTP_201_CREATED [(''Location'', ''/'')])"
    by (simp add: post_ada)
  have c2: "fst (create_accounts a_day one_row_store (json_request (JObject bob_payload))) =
     Inr (make_response (Json_body (serialize bob_row)) HTTP_201_CREATED [(''Location'', ''/'')])"
    by (simp add: post_bob)
  show ?thesis
    using c1 c2 location_is_root [OF c1] location_is_root [OF c2] by simp
qed

subsection \<open>C10\<close>

text \<open>
  Claim C10. The content-type check for application/json returns exactly when the
  Content-Type header is present and equal to that string; a missing header and
  any other value, a parameterized one included, abort with 415, and POST
  /accounts is then answered 415.
\<close>

theorem check_content_type_exact:
  "check_content_type ''application/json'' req =
     (if content_type req = Some ''application/json'' then Inr ()
      else Inl (Abort HTTP_415_UNSUPPORTED_MEDIA_TYPE
                  (Some ''Content-Type must be application/json'')))
   \<and> (content_type req \<noteq> Some ''application/json'' \<longrightarrow>
        status (fst (handle today s POST_accounts req)) = HTTP_415_UNSUPPORTED_MEDIA_TYPE)"
  by (cases "content_type req") (auto simp: check_content_type_def create_accounts_def respond_def make_response_def)

theorem check_content_type_exact_witness:
  "check_content_type ''application/json'' no_body =
     Inl (Abort HTTP_415_UNSUPPORTED_MEDIA_TYPE (Some ''Content-Type must be application/json''))
   \<and> check_content_type ''application/json'' charset_request =
     Inl (Abort HTTP_415_UNSUPPORTED_MEDIA_TYPE (Some ''Content-Type must be application/json''))
   \<and> status (fst (handle a_day empty_store POST_accounts charset_request)) =
       HTTP_415_UNSUPPORTED_MEDIA_TYPE
   \<and> check_content_type ''application/json'' (json_request (JObject ada_payload)) = Inr ()"
  using check_content_type_exact [of no_body a_day empty_store]
    check_content_type_exact [of charset_request a_day empty_store]
    check_content_type_exact [of "json_request (JObject ada_payload)" a_day empty_store]
  by (simp add: no_body_def charset_request_def json_request_def)

end
